theory Spec2Isabelle
  imports Main "HOL-Library.AList" "HOL-Library.Word"
begin

section \<open>Checkpointing of training sessions (apputils/checkpoint.py)\<close>

text \<open>
  The module has two functions, \<open>save_checkpoint\<close> and \<open>load_checkpoint\<close>. Both work
  on objects of other libraries (the model, the optimizer, the compression scheduler,
  the serializer of the tensor library) and on the file system. The embedding makes
  these explicit:
  \<^item> Python values that end up in a checkpoint are elements of \<open>pyobj\<close>;
  \<^item> the methods of the foreign objects are the fields of a record \<open>collaborators\<close>,
    which every function takes as its first argument; nothing is assumed about them
    except where a theorem says so;
  \<^item> the file system and the logger are a record \<open>world\<close> that is passed through;
  \<^item> an exception, including the \<open>SystemExit\<close> that \<open>exit\<close> raises, is a value of
    \<open>error\<close>, and a caller's \<open>try\<close> statement is the function \<open>try_except\<close>.
\<close>

subsection \<open>Python values\<close>

type_synonym float64 = "64 word"

datatype pyobj =
    PyNone
  | PyInt int
  | PyFloat float64
  | PyStr string
  | PyTensor "8 word list"
  | PyList "pyobj list"
  | PyDict "(string \<times> pyobj) list"

text \<open>
  A float is its IEEE bit pattern and a tensor the bytes of its storage, so equality
  of two values is equality bit by bit. A dictionary with string keys is an association
  list in insertion order; \<open>d[k] = v\<close> is \<open>AList.update k v d\<close>.
\<close>

type_synonym pydict = "(string \<times> pyobj) list"

subsection \<open>Failures\<close>

text \<open>An exception that comes out of a collaborator is described by a string.\<close>

type_synonym exn = string

datatype error =
    SystemExit int
  | KeyError string
  | TypeError string
  | NotModelled string
  | Raised exn

text \<open>
  \<open>SystemExit n\<close> is the exception raised by the call \<open>exit(n)\<close>, which ends the
  interpreter with status \<open>n\<close> only if nothing catches it; \<open>KeyError k\<close> is a subscript
  with a missing key;
  \<open>Raised e\<close> an exception raised inside a collaborator and not caught by this
  module. \<open>NotModelled\<close> marks arithmetic on floats and tensors, which the embedding
  does not compute.
\<close>

subsection \<open>Collaborators\<close>

text \<open>
  \<open>'m\<close> is the state of a model object, \<open>'o\<close> of an optimizer, \<open>'s\<close> of a compression
  scheduler, and \<open>'f\<close> is the content of a file. A method that changes its object in
  place returns the object's new state, together with the exception it raised, if any.
  \<open>model_thinning_recipe\<close> is \<open>Some r\<close> when the model has the attribute
  \<open>thinning_recipe\<close> with value \<open>r\<close>. The thinning executor is given the scheduler whose
  \<open>zeros_mask_dict\<close> the source passes by reference.
\<close>

record ('m, 'o, 's, 'f) collaborators =
  model_state_dict :: "'m \<Rightarrow> pyobj"
  model_thinning_recipe :: "'m \<Rightarrow> pyobj option"
  model_load_state_dict :: "'m \<Rightarrow> pyobj \<Rightarrow> exn option \<times> 'm"
  optimizer_state_dict :: "'o \<Rightarrow> pyobj"
  scheduler_state_dict :: "'s \<Rightarrow> pyobj"
  CompressionScheduler :: "'m \<Rightarrow> exn + 's"
  scheduler_load_state_dict :: "'s \<Rightarrow> pyobj \<Rightarrow> exn option \<times> 's"
  execute_thinning_recipe :: "'m \<Rightarrow> 's \<Rightarrow> pyobj \<Rightarrow> exn option \<times> 'm \<times> 's"
  torch_serialize :: "pyobj \<Rightarrow> 'f"
  torch_deserialize :: "'f \<Rightarrow> exn + pyobj"

subsection \<open>The world: regular files and the log\<close>

text \<open>
  \<open>files w p\<close> is the content of the regular file at path \<open>p\<close>, if there is one. A log
  record is the format string and its arguments, as the logger receives them. Writing
  a file always succeeds here: failures of the host (a full disk, missing permissions)
  are outside the embedding.
\<close>

type_synonym log_record = "string \<times> pyobj list"

record 'f world =
  files :: "string \<rightharpoonup> 'f"
  log :: "log_record list"

definition msglogger_info :: "string \<Rightarrow> pyobj list \<Rightarrow> 'f world \<Rightarrow> 'f world" where
  "msglogger_info fmt args w = w\<lparr>log := log w @ [(fmt, args)]\<rparr>"

definition isfile :: "'f world \<Rightarrow> string \<Rightarrow> bool" where
  "isfile w p = (files w p \<noteq> None)"

definition torch_save ::
  "('m, 'o, 's, 'f) collaborators \<Rightarrow> pyobj \<Rightarrow> string \<Rightarrow> 'f world \<Rightarrow> 'f world" where
  "torch_save ext obj p w = w\<lparr>files := (files w)(p \<mapsto> torch_serialize ext obj)\<rparr>"

definition torch_load ::
  "('m, 'o, 's, 'f) collaborators \<Rightarrow> string \<Rightarrow> 'f world \<Rightarrow> error + pyobj" where
  "torch_load ext p w =
     (case files w p of
        None \<Rightarrow> Inl (Raised ''FileNotFoundError'')
      | Some data \<Rightarrow>
          (case torch_deserialize ext data of
             Inl e \<Rightarrow> Inl (Raised e)
           | Inr obj \<Rightarrow> Inr obj))"

definition copyfile :: "string \<Rightarrow> string \<Rightarrow> 'f world \<Rightarrow> error + 'f world" where
  "copyfile src dst w =
     (if src = dst then Inl (Raised ''SameFileError'')
      else case files w src of
             None \<Rightarrow> Inl (Raised ''FileNotFoundError'')
           | Some data \<Rightarrow> Inr (w\<lparr>files := (files w)(dst \<mapsto> data)\<rparr>))"

subsection \<open>save_checkpoint\<close>

text \<open>The two file names (lines 45 and 46).\<close>

definition filename :: "string option \<Rightarrow> string" where
  "filename name =
     (case name of None \<Rightarrow> ''checkpoint.pth.tar'' | Some n \<Rightarrow> n @ ''_checkpoint.pth.tar'')"

definition filename_best :: "string option \<Rightarrow> string" where
  "filename_best name =
     (case name of None \<Rightarrow> ''best.pth.tar'' | Some n \<Rightarrow> n @ ''_best.pth.tar'')"

text \<open>
  The dictionary \<open>checkpoint\<close> as it stands after line 57. The arguments \<open>scheduler\<close>,
  \<open>best_top1\<close> and \<open>name\<close> default to \<open>None\<close> in the source and are options here.
  As the docstring describes them, \<open>epoch\<close> is an integer (unbounded, as in Python),
  \<open>arch\<close> a string and \<open>best_top1\<close> a float; \<open>is_best\<close> is a truth value.
\<close>

definition checkpoint ::
  "('m, 'o, 's, 'f) collaborators \<Rightarrow> int \<Rightarrow> string \<Rightarrow> 'm \<Rightarrow> 'o \<Rightarrow> 's option \<Rightarrow>
   float64 option \<Rightarrow> pydict" where
  "checkpoint ext epoch arch model optimizer scheduler best_top1 =
     (let c0 = [];
          c1 = AList.update ''epoch'' (PyInt epoch) c0;
          c2 = AList.update ''arch'' (PyStr arch) c1;
          c3 = AList.update ''state_dict'' (model_state_dict ext model) c2;
          c4 = (case best_top1 of
                  None \<Rightarrow> c3
                | Some b \<Rightarrow> AList.update ''best_top1'' (PyFloat b) c3);
          c5 = AList.update ''optimizer'' (optimizer_state_dict ext optimizer) c4;
          c6 = (case scheduler of
                  None \<Rightarrow> c5
                | Some s \<Rightarrow> AList.update ''compression_sched'' (scheduler_state_dict ext s) c5);
          c7 = (case model_thinning_recipe ext model of
                  None \<Rightarrow> c6
                | Some r \<Rightarrow> AList.update ''thinning_recipe'' r c6)
      in c7)"

definition save_checkpoint ::
  "('m, 'o, 's, 'f) collaborators \<Rightarrow> int \<Rightarrow> string \<Rightarrow> 'm \<Rightarrow> 'o \<Rightarrow> 's option \<Rightarrow>
   float64 option \<Rightarrow> bool \<Rightarrow> string option \<Rightarrow> 'f world \<Rightarrow> error + 'f world" where
  "save_checkpoint ext epoch arch model optimizer scheduler best_top1 is_best name w =
     (let w1 = msglogger_info ''Saving checkpoint'' [] w;
          c = checkpoint ext epoch arch model optimizer scheduler best_top1;
          w2 = torch_save ext (PyDict c) (filename name) w1
      in if is_best then copyfile (filename name) (filename_best name) w2
         else Inr w2)"

subsection \<open>load_checkpoint\<close>

text \<open>\<open>x + 1\<close> for the value stored under \<open>epoch\<close> (line 78).\<close>

fun py_add_1 :: "pyobj \<Rightarrow> error + int" where
  "py_add_1 (PyInt e) = Inr (e + 1)"
| "py_add_1 (PyFloat x) = Inl (NotModelled ''float + int'')"
| "py_add_1 (PyTensor t) = Inl (NotModelled ''tensor + int'')"
| "py_add_1 PyNone = Inl (TypeError ''unsupported operand type(s) for +'')"
| "py_add_1 (PyStr s) = Inl (TypeError ''unsupported operand type(s) for +'')"
| "py_add_1 (PyList xs) = Inl (TypeError ''unsupported operand type(s) for +'')"
| "py_add_1 (PyDict d) = Inl (TypeError ''unsupported operand type(s) for +'')"

text \<open>\<open>d.get(k, None)\<close>.\<close>

definition py_get :: "pydict \<Rightarrow> string \<Rightarrow> pyobj" where
  "py_get d k = (case map_of d k of None \<Rightarrow> PyNone | Some v \<Rightarrow> v)"

text \<open>
  Lines 83 to 97: the scheduler is rebuilt when the record has a schedule, and only
  then is a thinning recipe executed. The result is the exception that came out (if
  any), the model, the local variable \<open>compression_scheduler\<close> and the world.
\<close>

definition load_compression_sched ::
  "('m, 'o, 's, 'f) collaborators \<Rightarrow> 'm \<Rightarrow> string \<Rightarrow> pydict \<Rightarrow> pyobj \<Rightarrow> 'f world \<Rightarrow>
   exn option \<times> 'm \<times> 's option \<times> 'f world" where
  "load_compression_sched ext model chkpt_file chk epoch w =
     (case map_of chk ''compression_sched'' of
        Some sched_state \<Rightarrow>
          (case CompressionScheduler ext model of
             Inl e \<Rightarrow> (Some e, model, None, w)
           | Inr s0 \<Rightarrow>
               (case scheduler_load_state_dict ext s0 sched_state of
                  (Some e, s1) \<Rightarrow> (Some e, model, Some s1, w)
                | (None, s1) \<Rightarrow>
                    (let w1 = msglogger_info
                                ''Loaded compression schedule from checkpoint (epoch %d)''
                                [epoch] w
                     in case map_of chk ''thinning_recipe'' of
                          Some recipe \<Rightarrow>
                            (let w2 = msglogger_info
                                        ''Loaded a thinning recipe from the checkpoint'' [] w1
                             in case execute_thinning_recipe ext model s1 recipe of
                                  (r, model', s2) \<Rightarrow> (r, model', Some s2, w2))
                        | None \<Rightarrow> (None, model, Some s1, w1))))
      | None \<Rightarrow>
          (let w1 = msglogger_info
                      ''Warning: compression schedule data does not exist in the checkpoint''
                      [] w;
               w2 = msglogger_info
                      (''=> loaded checkpoint '' @ [CHR 0x27] @ ''%s'' @ [CHR 0x27] @ '' (epoch %d)'')
                      [PyStr chkpt_file, epoch] w1
           in (None, model, None, w2)))"

text \<open>
  The result of \<open>load_checkpoint\<close> is what the call returns or the failure it ends
  with, then the model object and the optimizer object as the call leaves them, then
  the world. On success the returned model is the model object itself.
\<close>

definition load_checkpoint ::
  "('m, 'o, 's, 'f) collaborators \<Rightarrow> 'm \<Rightarrow> string \<Rightarrow> 'o option \<Rightarrow> 'f world \<Rightarrow>
   (error + 'm \<times> 's option \<times> int) \<times> 'm \<times> 'o option \<times> 'f world" where
  "load_checkpoint ext model chkpt_file optimizer w =
     (if isfile w chkpt_file then
        (let w1 = msglogger_info ''=> loading checkpoint %s'' [PyStr chkpt_file] w
         in case torch_load ext chkpt_file w1 of
              Inl e \<Rightarrow> (Inl e, model, optimizer, w1)
            | Inr (PyDict chk) \<Rightarrow>
                (case map_of chk ''epoch'' of
                   None \<Rightarrow> (Inl (KeyError ''epoch''), model, optimizer, w1)
                 | Some epoch \<Rightarrow>
                     (case py_add_1 epoch of
                        Inl e \<Rightarrow> (Inl e, model, optimizer, w1)
                      | Inr start_epoch \<Rightarrow>
                          (let best_top1 = py_get chk ''best_top1'';
                               w2 = (if best_top1 \<noteq> PyNone
                                     then msglogger_info ''   best top@1: %.3f'' [best_top1] w1
                                     else w1)
                           in case load_compression_sched ext model chkpt_file chk epoch w2 of
                                (Some e, model1, sched, w3) \<Rightarrow>
                                  (Inl (Raised e), model1, optimizer, w3)
                              | (None, model1, sched, w3) \<Rightarrow>
                                  (case map_of chk ''state_dict'' of
                                     None \<Rightarrow>
                                       (Inl (KeyError ''state_dict''), model1, optimizer, w3)
                                   | Some sd \<Rightarrow>
                                       (case model_load_state_dict ext model1 sd of
                                          (Some e, model2) \<Rightarrow>
                                            (Inl (Raised e), model2, optimizer, w3)
                                        | (None, model2) \<Rightarrow>
                                            (Inr (model2, sched, start_epoch),
                                             model2, optimizer, w3))))))
            | Inr _ \<Rightarrow>
                (Inl (TypeError ''object is not subscriptable''), model, optimizer, w1))
      else
        (Inl (SystemExit 1), model, optimizer,
         msglogger_info ''Error: no checkpoint found at %s'' [PyStr chkpt_file] w))"

subsection \<open>Callers\<close>

text \<open>
  A caller may wrap a call in \<open>try: ... except C: ...\<close>. The wrapped call is the result
  together with the objects and the world it leaves; \<open>clause\<close> says which errors the
  class \<open>C\<close> matches, and \<open>handler\<close> is the body of the \<open>except\<close> branch. An error the
  clause does not match goes on to the caller's caller.
\<close>

definition try_except ::
  "(error + 'a) \<times> 'st \<Rightarrow> (error \<Rightarrow> bool) \<Rightarrow> (error \<Rightarrow> 'st \<Rightarrow> (error + 'a) \<times> 'st) \<Rightarrow>
   (error + 'a) \<times> 'st" where
  "try_except r clause handler =
     (case r of
        (Inl e, st) \<Rightarrow> if clause e then handler e st else (Inl e, st)
      | (Inr v, st) \<Rightarrow> (Inr v, st))"

text \<open>
  \<open>SystemExit\<close> is a subclass of \<open>BaseException\<close> and not of \<open>Exception\<close>: the clause
  \<open>except SystemExit\<close> matches it and \<open>except Exception\<close> does not. The other errors
  of the embedding are taken to be ordinary exceptions.
\<close>

definition except_SystemExit :: "error \<Rightarrow> bool" where
  "except_SystemExit e = (case e of SystemExit n \<Rightarrow> True | _ \<Rightarrow> False)"

definition except_Exception :: "error \<Rightarrow> bool" where
  "except_Exception e = (case e of SystemExit n \<Rightarrow> False | _ \<Rightarrow> True)"

definition except_BaseException :: "error \<Rightarrow> bool" where
  "except_BaseException e = True"

text \<open>
  What \<open>load_checkpoint\<close> does with the result of lines 83 to 97 once the record is
  known to hold \<open>state_dict\<close> and an integer \<open>epoch\<close> (lines 99 to 101). The
  definition only serves to state lemmas about \<open>load_checkpoint\<close>.
\<close>

definition after_load_compression_sched ::
  "('m, 'o, 's, 'f) collaborators \<Rightarrow> 'o option \<Rightarrow> pyobj \<Rightarrow> int \<Rightarrow>
   exn option \<times> 'm \<times> 's option \<times> 'f world \<Rightarrow>
   (error + 'm \<times> 's option \<times> int) \<times> 'm \<times> 'o option \<times> 'f world" where
  "after_load_compression_sched ext opt sd e r =
     (case r of
        (Some x, model1, sched, w3) \<Rightarrow> (Inl (Raised x), model1, opt, w3)
      | (None, model1, sched, w3) \<Rightarrow>
          (case model_load_state_dict ext model1 sd of
             (Some x, model2) \<Rightarrow> (Inl (Raised x), model2, opt, w3)
           | (None, model2) \<Rightarrow> (Inr (model2, sched, e + 1), model2, opt, w3)))"

subsection \<open>A small set of collaborators\<close>

text \<open>
  For concrete runs: a model is its state dictionary paired with its thinning recipe
  (if it has one); optimizer and scheduler states are plain values; loading a state
  replaces the old one; thinning wraps the model's state together with the recipe, so
  that a run of the executor is visible in the model; a file holds the saved object
  itself.
\<close>

definition toy :: "(pyobj \<times> pyobj option, pyobj, pyobj, pyobj) collaborators" where
  "toy = \<lparr> model_state_dict = fst,
           model_thinning_recipe = snd,
           model_load_state_dict = (\<lambda>m sd. (None, (sd, snd m))),
           optimizer_state_dict = (\<lambda>opt. opt),
           scheduler_state_dict = (\<lambda>s. s),
           CompressionScheduler = (\<lambda>m. Inr PyNone),
           scheduler_load_state_dict = (\<lambda>s st. (None, st)),
           execute_thinning_recipe = (\<lambda>m s r. (None, (PyList [fst m, r], snd m), s)),
           torch_serialize = (\<lambda>obj. obj),
           torch_deserialize = Inr \<rparr>"

definition empty_world :: "pyobj world" where
  "empty_world = \<lparr>files = Map.empty, log = []\<rparr>"

definition toy_model :: "pyobj \<times> pyobj option" where
  "toy_model = (PyDict [(''fc.weight'', PyTensor [1, 2, 3])],
                Some (PyList [PyStr ''remove channel 0'']))"

definition toy_optimizer :: pyobj where
  "toy_optimizer = PyDict [(''lr'', PyFloat 0x3F847AE147AE147B)]"

definition toy_scheduler :: pyobj where
  "toy_scheduler = PyDict [(''masks_dict'', PyDict [])]"

definition toy_fresh_model :: "pyobj \<times> pyobj option" where
  "toy_fresh_model = (PyDict [(''fc.weight'', PyTensor [0, 0, 0])], None)"

text \<open>
  The body of a caller's \<open>except\<close> branch that goes on training from epoch 0 with the
  model as it is and no scheduler.
\<close>

definition resume_from_scratch ::
  "error \<Rightarrow> 'm \<times> 'o option \<times> 'f world \<Rightarrow>
   (error + 'm \<times> 's option \<times> int) \<times> 'm \<times> 'o option \<times> 'f world" where
  "resume_from_scratch e st = (Inr (fst st, None, 0), st)"

definition toy_old_world :: "pyobj world" where
  "toy_old_world =
     \<lparr>files = [''old.pth.tar'' \<mapsto>
                PyDict [(''epoch'', PyInt 3),
                        (''state_dict'', PyDict [(''fc.weight'', PyTensor [7, 8, 9])]),
                        (''thinning_recipe'', PyList [PyStr ''remove channel 0''])]],
      log = []\<rparr>"

section \<open>Properties\<close>

subsection \<open>The record that is saved\<close>

text \<open>
  The dictionary built by \<open>save_checkpoint\<close>, written out: the three optional entries
  appear exactly when their source is there, in the order of the assignments.
\<close>

lemma filename_neq: "filename name \<noteq> filename_best name"
  by (cases name) (simp_all add: filename_def filename_best_def)

lemma checkpoint_eq:
  "checkpoint ext epoch arch model optimizer scheduler best_top1 =
     [(''epoch'', PyInt epoch), (''arch'', PyStr arch),
      (''state_dict'', model_state_dict ext model)]
     @ (case best_top1 of None \<Rightarrow> [] | Some b \<Rightarrow> [(''best_top1'', PyFloat b)])
     @ [(''optimizer'', optimizer_state_dict ext optimizer)]
     @ (case scheduler of None \<Rightarrow> []
        | Some s \<Rightarrow> [(''compression_sched'', scheduler_state_dict ext s)])
     @ (case model_thinning_recipe ext model of None \<Rightarrow> []
        | Some r \<Rightarrow> [(''thinning_recipe'', r)])"
  by (cases best_top1; cases scheduler; cases "model_thinning_recipe ext model")
     (simp_all add: checkpoint_def)

lemma checkpoint_epoch:
  "map_of (checkpoint ext epoch arch model optimizer scheduler best_top1) ''epoch'' =
     Some (PyInt epoch)"
  by (cases best_top1; cases scheduler; cases "model_thinning_recipe ext model")
     (simp_all add: checkpoint_eq)

lemma checkpoint_arch:
  "map_of (checkpoint ext epoch arch model optimizer scheduler best_top1) ''arch'' =
     Some (PyStr arch)"
  by (cases best_top1; cases scheduler; cases "model_thinning_recipe ext model")
     (simp_all add: checkpoint_eq)

lemma checkpoint_state_dict:
  "map_of (checkpoint ext epoch arch model optimizer scheduler best_top1) ''state_dict'' =
     Some (model_state_dict ext model)"
  by (cases best_top1; cases scheduler; cases "model_thinning_recipe ext model")
     (simp_all add: checkpoint_eq)

lemma checkpoint_optimizer:
  "map_of (checkpoint ext epoch arch model optimizer scheduler best_top1) ''optimizer'' =
     Some (optimizer_state_dict ext optimizer)"
  by (cases best_top1; cases scheduler; cases "model_thinning_recipe ext model")
     (simp_all add: checkpoint_eq)

lemma checkpoint_best_top1:
  "map_of (checkpoint ext epoch arch model optimizer scheduler best_top1) ''best_top1'' =
     map_option PyFloat best_top1"
  by (cases best_top1; cases scheduler; cases "model_thinning_recipe ext model")
     (simp_all add: checkpoint_eq)

lemma checkpoint_compression_sched:
  "map_of (checkpoint ext epoch arch model optimizer scheduler best_top1) ''compression_sched'' =
     map_option (scheduler_state_dict ext) scheduler"
  by (cases best_top1; cases scheduler; cases "model_thinning_recipe ext model")
     (simp_all add: checkpoint_eq)

lemma checkpoint_thinning_recipe:
  "map_of (checkpoint ext epoch arch model optimizer scheduler best_top1) ''thinning_recipe'' =
     model_thinning_recipe ext model"
  by (cases best_top1; cases scheduler; cases "model_thinning_recipe ext model")
     (simp_all add: checkpoint_eq)

lemma checkpoint_keys:
  "fst ` set (checkpoint ext epoch arch model optimizer scheduler best_top1) =
     {''epoch'', ''arch'', ''state_dict'', ''optimizer''}
     \<union> (if best_top1 = None then {} else {''best_top1''})
     \<union> (if scheduler = None then {} else {''compression_sched''})
     \<union> (if model_thinning_recipe ext model = None then {} else {''thinning_recipe''})"
  by (cases best_top1; cases scheduler; cases "model_thinning_recipe ext model")
     (simp_all add: checkpoint_eq insert_commute)

lemma save_checkpoint_eq:
  "save_checkpoint ext epoch arch model optimizer scheduler best_top1 is_best name w =
     Inr \<lparr>files = (if is_best
                   then (files w)(filename name \<mapsto> torch_serialize ext
                           (PyDict (checkpoint ext epoch arch model optimizer scheduler best_top1)),
                         filename_best name \<mapsto> torch_serialize ext
                           (PyDict (checkpoint ext epoch arch model optimizer scheduler best_top1)))
                   else (files w)(filename name \<mapsto> torch_serialize ext
                           (PyDict (checkpoint ext epoch arch model optimizer scheduler best_top1)))),
           log = log w @ [(''Saving checkpoint'', [])]\<rparr>"
  by (simp add: save_checkpoint_def Let_def torch_save_def copyfile_def msglogger_info_def
      filename_neq)

subsection \<open>Loading a record\<close>

lemma load_checkpoint_record:
  assumes "files w p = Some data"
      and "torch_deserialize ext data = Inr (PyDict chk)"
      and "map_of chk ''epoch'' = Some (PyInt e)"
      and "map_of chk ''state_dict'' = Some sd"
  shows "load_checkpoint ext model p opt w =
     after_load_compression_sched ext opt sd e
       (load_compression_sched ext model p chk (PyInt e)
          (if py_get chk ''best_top1'' \<noteq> PyNone
           then msglogger_info ''   best top@1: %.3f'' [py_get chk ''best_top1'']
                  (msglogger_info ''=> loading checkpoint %s'' [PyStr p] w)
           else msglogger_info ''=> loading checkpoint %s'' [PyStr p] w))"
  using assms
  by (simp add: load_checkpoint_def isfile_def torch_load_def msglogger_info_def Let_def
        after_load_compression_sched_def split: prod.splits option.splits)

lemma load_after_save:
  assumes rt: "\<forall>obj. torch_deserialize ext (torch_serialize ext obj) = Inr obj"
      and sv: "save_checkpoint ext epoch arch model optimizer scheduler best_top1 is_best name w
                 = Inr w'"
  shows "load_checkpoint ext model2 (filename name) optimizer2 w' =
     after_load_compression_sched ext optimizer2 (model_state_dict ext model) epoch
       (load_compression_sched ext model2 (filename name)
          (checkpoint ext epoch arch model optimizer scheduler best_top1) (PyInt epoch)
          (case best_top1 of
             None \<Rightarrow> msglogger_info ''=> loading checkpoint %s'' [PyStr (filename name)] w'
           | Some b \<Rightarrow> msglogger_info ''   best top@1: %.3f'' [PyFloat b]
                  (msglogger_info ''=> loading checkpoint %s'' [PyStr (filename name)] w')))"
proof -
  let ?chk = "checkpoint ext epoch arch model optimizer scheduler best_top1"
  have f: "files w' (filename name) = Some (torch_serialize ext (PyDict ?chk))"
    using sv filename_neq [of name] by (auto simp add: save_checkpoint_eq)
  have d: "torch_deserialize ext (torch_serialize ext (PyDict ?chk)) = Inr (PyDict ?chk)"
    using rt by simp
  have b: "py_get ?chk ''best_top1'' = (case best_top1 of None \<Rightarrow> PyNone | Some b \<Rightarrow> PyFloat b)"
    by (simp add: py_get_def checkpoint_best_top1 split: option.splits)
  show ?thesis
    unfolding load_checkpoint_record [OF f d checkpoint_epoch checkpoint_state_dict] b
    by (simp split: option.splits)
qed

lemma load_compression_sched_absent:
  assumes "map_of chk ''compression_sched'' = None"
  shows "load_compression_sched ext model p chk epoch w =
           (None, model, None,
            w\<lparr>log := log w @
              [(''Warning: compression schedule data does not exist in the checkpoint'', []),
               (''=> loaded checkpoint '' @ [CHR 0x27] @ ''%s'' @ [CHR 0x27] @ '' (epoch %d)'',
                [PyStr p, epoch])]\<rparr>)"
  using assms by (simp add: load_compression_sched_def msglogger_info_def)

lemma after_load_compression_sched_state_dict:
  assumes ld: "\<forall>m sd m'. model_load_state_dict ext m sd = (None, m') \<longrightarrow>
                 model_state_dict ext m' = sd"
  shows "case after_load_compression_sched ext opt sd e r of
           (Inr (m', s, e'), m'', opt', w'') \<Rightarrow> m'' = m' \<and> model_state_dict ext m'' = sd
         | (Inl err, m'', opt', w'') \<Rightarrow> (\<exists>x. err = Raised x)"
  using ld
  by (auto simp add: after_load_compression_sched_def split: prod.splits option.splits)

lemma after_load_compression_sched_start_epoch:
  "case after_load_compression_sched ext opt sd e r of
     (Inr (m', s, start_epoch), rest) \<Rightarrow> start_epoch = e + 1
   | (Inl err, rest) \<Rightarrow> (\<exists>x. err = Raised x)"
  by (auto simp add: after_load_compression_sched_def split: prod.splits option.splits)

subsection \<open>The small collaborators\<close>

lemma toy_round_trip: "\<forall>obj. torch_deserialize toy (torch_serialize toy obj) = Inr obj"
  by (simp add: toy_def)

lemma toy_load_state_dict:
  "\<forall>m sd m'. model_load_state_dict toy m sd = (None, m') \<longrightarrow> model_state_dict toy m' = sd"
  by (auto simp add: toy_def)

lemma toy_checkpoint_run1:
  "checkpoint toy 5 ''resnet18'' toy_model toy_optimizer None (Some 0x4051CCCCCCCCCCCD) =
     [(''epoch'', PyInt 5), (''arch'', PyStr ''resnet18''),
      (''state_dict'', PyDict [(''fc.weight'', PyTensor [1, 2, 3])]),
      (''best_top1'', PyFloat 0x4051CCCCCCCCCCCD),
      (''optimizer'', PyDict [(''lr'', PyFloat 0x3F847AE147AE147B)]),
      (''thinning_recipe'', PyList [PyStr ''remove channel 0''])]"
  by (simp add: checkpoint_eq toy_def toy_model_def toy_optimizer_def)

subsection \<open>Claims\<close>

text \<open>
  C3. When the path names no regular file, \<open>load_checkpoint\<close> logs the error and calls
  \<open>exit(1)\<close>, that is, it raises \<open>SystemExit\<close> with code 1. The model and the optimizer
  are what they were, no file changes, no collaborator is called, and the only effect
  is one log record. A caller's \<open>except Exception\<close> does not intercept the exit, so it
  goes on towards the interpreter; a caller's \<open>except SystemExit\<close> or
  \<open>except BaseException\<close> does intercept it, and its handler runs.
\<close>

theorem load_checkpoint_missing_file:
  assumes "files w chkpt_file = None"
  shows "load_checkpoint ext model chkpt_file optimizer w =
           (Inl (SystemExit 1), model, optimizer,
            w\<lparr>log := log w @ [(''Error: no checkpoint found at %s'', [PyStr chkpt_file])]\<rparr>)
       \<and> try_except (load_checkpoint ext model chkpt_file optimizer w) except_Exception handler =
           (Inl (SystemExit 1), model, optimizer,
            w\<lparr>log := log w @ [(''Error: no checkpoint found at %s'', [PyStr chkpt_file])]\<rparr>)
       \<and> try_except (load_checkpoint ext model chkpt_file optimizer w) except_SystemExit handler =
           handler (SystemExit 1)
             (model, optimizer,
              w\<lparr>log := log w @ [(''Error: no checkpoint found at %s'', [PyStr chkpt_file])]\<rparr>)
       \<and> try_except (load_checkpoint ext model chkpt_file optimizer w) except_BaseException
             handler =
           handler (SystemExit 1)
             (model, optimizer,
              w\<lparr>log := log w @ [(''Error: no checkpoint found at %s'', [PyStr chkpt_file])]\<rparr>)"
proof -
  have l: "load_checkpoint ext model chkpt_file optimizer w =
           (Inl (SystemExit 1), model, optimizer,
            w\<lparr>log := log w @ [(''Error: no checkpoint found at %s'', [PyStr chkpt_file])]\<rparr>)"
    using assms by (simp add: load_checkpoint_def isfile_def msglogger_info_def)
  show ?thesis
    unfolding l
    by (simp add: try_except_def except_Exception_def except_SystemExit_def
          except_BaseException_def)
qed

theorem load_checkpoint_missing_file_witness:
  "files empty_world ''run1_checkpoint.pth.tar'' = None
   \<and> fst (load_checkpoint toy toy_fresh_model ''run1_checkpoint.pth.tar''
             (Some toy_optimizer) empty_world) = Inl (SystemExit 1)
   \<and> fst (snd (load_checkpoint toy toy_fresh_model ''run1_checkpoint.pth.tar''
             (Some toy_optimizer) empty_world)) = toy_fresh_model
   \<and> log (snd (snd (snd (load_checkpoint toy toy_fresh_model ''run1_checkpoint.pth.tar''
             (Some toy_optimizer) empty_world)))) =
       [(''Error: no checkpoint found at %s'', [PyStr ''run1_checkpoint.pth.tar''])]
   \<and> fst (try_except
            (load_checkpoint toy toy_fresh_model ''run1_checkpoint.pth.tar''
               (Some toy_optimizer) empty_world)
            except_Exception resume_from_scratch) = Inl (SystemExit 1)"
proof -
  have h: "files empty_world ''run1_checkpoint.pth.tar'' = None"
    by (simp add: empty_world_def)
  note t = load_checkpoint_missing_file
             [OF h, where ext = toy and model = toy_fresh_model
                and optimizer = "Some toy_optimizer" and handler = resume_from_scratch]
  show ?thesis
    unfolding t [THEN conjunct2, THEN conjunct1]
    unfolding t [THEN conjunct1]
    using h by (simp add: empty_world_def)
qed

text \<open>
  The claim as the specification words it, that the missing file ends the process and
  raises nothing a caller can catch, fails: with no file at the path, a caller whose
  \<open>try\<close> has an \<open>except SystemExit\<close> branch catches the exit and goes on, here with
  the untouched model and epoch 0.
\<close>

theorem load_checkpoint_exit_is_caught:
  "files empty_world ''missing.pth.tar'' = None
   \<and> fst (load_checkpoint toy toy_fresh_model ''missing.pth.tar'' None empty_world) =
       Inl (SystemExit 1)
   \<and> fst (try_except
            (load_checkpoint toy toy_fresh_model ''missing.pth.tar'' None empty_world)
            except_SystemExit resume_from_scratch) =
       Inr (toy_fresh_model, None, 0)"
  by (simp add: load_checkpoint_def isfile_def msglogger_info_def empty_world_def
        try_except_def except_SystemExit_def resume_from_scratch_def)

text \<open>
  C5. When the model has the attribute \<open>thinning_recipe\<close>, the record built by
  \<open>save_checkpoint\<close> holds it under the key \<open>thinning_recipe\<close>, whatever the scheduler
  argument is (in particular when it is \<open>None\<close>), and that record is what the primary
  file receives.
\<close>

theorem save_checkpoint_thinning_recipe:
  assumes "model_thinning_recipe ext model = Some r"
  shows "map_of (checkpoint ext epoch arch model optimizer scheduler best_top1)
           ''thinning_recipe'' = Some r
       \<and> (\<exists>w'. save_checkpoint ext epoch arch model optimizer scheduler best_top1 is_best name w
                  = Inr w'
              \<and> files w' (filename name) =
                  Some (torch_serialize ext
                    (PyDict (checkpoint ext epoch arch model optimizer scheduler best_top1))))"
  using assms by (simp add: checkpoint_thinning_recipe save_checkpoint_eq filename_neq)

theorem save_checkpoint_thinning_recipe_witness:
  "model_thinning_recipe toy toy_model = Some (PyList [PyStr ''remove channel 0''])
   \<and> map_of (checkpoint toy 5 ''resnet18'' toy_model toy_optimizer None (Some 0x4051CCCCCCCCCCCD))
        ''thinning_recipe'' = Some (PyList [PyStr ''remove channel 0''])
   \<and> (\<exists>w'. save_checkpoint toy 5 ''resnet18'' toy_model toy_optimizer None
               (Some 0x4051CCCCCCCCCCCD) True (Some ''run1'') empty_world = Inr w'
          \<and> files w' (filename (Some ''run1'')) =
              Some (torch_serialize toy
                (PyDict (checkpoint toy 5 ''resnet18'' toy_model toy_optimizer None
                   (Some 0x4051CCCCCCCCCCCD)))))"
proof -
  have h: "model_thinning_recipe toy toy_model = Some (PyList [PyStr ''remove channel 0''])"
    by (simp add: toy_def toy_model_def)
  show ?thesis
    using h save_checkpoint_thinning_recipe [OF h] by blast
qed

text \<open>
  C8. \<open>save_checkpoint\<close> returns normally and the primary file holds the serialized
  record. With \<open>is_best\<close> the best file has the same content as the primary file and
  no other path changes; without it the best path is as it was before the call and
  only the primary path changes.
\<close>

theorem save_checkpoint_best_copy:
  "\<exists>w'. save_checkpoint ext epoch arch model optimizer scheduler best_top1 is_best name w = Inr w'
      \<and> files w' (filename name) =
          Some (torch_serialize ext
            (PyDict (checkpoint ext epoch arch model optimizer scheduler best_top1)))
      \<and> (if is_best
         then files w' (filename_best name) = files w' (filename name)
            \<and> (\<forall>p. p \<noteq> filename name \<and> p \<noteq> filename_best name \<longrightarrow> files w' p = files w p)
         else files w' (filename_best name) = files w (filename_best name)
            \<and> (\<forall>p. p \<noteq> filename name \<longrightarrow> files w' p = files w p))"
  using filename_neq [of name] by (simp add: save_checkpoint_eq)

theorem save_checkpoint_best_copy_witness:
  "(\<exists>w'. save_checkpoint toy 5 ''resnet18'' toy_model toy_optimizer None
            (Some 0x4051CCCCCCCCCCCD) True (Some ''run1'') empty_world = Inr w'
      \<and> files w' (filename (Some ''run1'')) =
          Some (torch_serialize toy
            (PyDict (checkpoint toy 5 ''resnet18'' toy_model toy_optimizer None
               (Some 0x4051CCCCCCCCCCCD))))
      \<and> (if True
         then files w' (filename_best (Some ''run1'')) = files w' (filename (Some ''run1''))
            \<and> (\<forall>p. p \<noteq> filename (Some ''run1'') \<and> p \<noteq> filename_best (Some ''run1'') \<longrightarrow>
                   files w' p = files empty_world p)
         else files w' (filename_best (Some ''run1'')) =
                files empty_world (filename_best (Some ''run1''))
            \<and> (\<forall>p. p \<noteq> filename (Some ''run1'') \<longrightarrow> files w' p = files empty_world p)))
   \<and> (case save_checkpoint toy 5 ''resnet18'' toy_model toy_optimizer None
            (Some 0x4051CCCCCCCCCCCD) True (Some ''run1'') empty_world of
         Inr w' \<Rightarrow>
           files w' ''run1_best.pth.tar'' = files w' ''run1_checkpoint.pth.tar''
           \<and> files w' ''run1_checkpoint.pth.tar'' =
               Some (PyDict
                 [(''epoch'', PyInt 5), (''arch'', PyStr ''resnet18''),
                  (''state_dict'', PyDict [(''fc.weight'', PyTensor [1, 2, 3])]),
                  (''best_top1'', PyFloat 0x4051CCCCCCCCCCCD),
                  (''optimizer'', PyDict [(''lr'', PyFloat 0x3F847AE147AE147B)]),
                  (''thinning_recipe'', PyList [PyStr ''remove channel 0''])])
       | Inl err \<Rightarrow> False)"
proof (rule conjI)
  show "\<exists>w'. save_checkpoint toy 5 ''resnet18'' toy_model toy_optimizer None
            (Some 0x4051CCCCCCCCCCCD) True (Some ''run1'') empty_world = Inr w'
      \<and> files w' (filename (Some ''run1'')) =
          Some (torch_serialize toy
            (PyDict (checkpoint toy 5 ''resnet18'' toy_model toy_optimizer None
               (Some 0x4051CCCCCCCCCCCD))))
      \<and> (if True
         then files w' (filename_best (Some ''run1'')) = files w' (filename (Some ''run1''))
            \<and> (\<forall>p. p \<noteq> filename (Some ''run1'') \<and> p \<noteq> filename_best (Some ''run1'') \<longrightarrow>
                   files w' p = files empty_world p)
         else files w' (filename_best (Some ''run1'')) =
                files empty_world (filename_best (Some ''run1''))
            \<and> (\<forall>p. p \<noteq> filename (Some ''run1'') \<longrightarrow> files w' p = files empty_world p))"
    by (rule save_checkpoint_best_copy)
  show "case save_checkpoint toy 5 ''resnet18'' toy_model toy_optimizer None
            (Some 0x4051CCCCCCCCCCCD) True (Some ''run1'') empty_world of
         Inr w' \<Rightarrow>
           files w' ''run1_best.pth.tar'' = files w' ''run1_checkpoint.pth.tar''
           \<and> files w' ''run1_checkpoint.pth.tar'' =
               Some (PyDict
                 [(''epoch'', PyInt 5), (''arch'', PyStr ''resnet18''),
                  (''state_dict'', PyDict [(''fc.weight'', PyTensor [1, 2, 3])]),
                  (''best_top1'', PyFloat 0x4051CCCCCCCCCCCD),
                  (''optimizer'', PyDict [(''lr'', PyFloat 0x3F847AE147AE147B)]),
                  (''thinning_recipe'', PyList [PyStr ''remove channel 0''])])
       | Inl err \<Rightarrow> False"
    unfolding save_checkpoint_eq toy_checkpoint_run1
    by (simp add: filename_def filename_best_def toy_def)
qed

text \<open>
  C9. The primary file is \<open>checkpoint.pth.tar\<close>, or \<open>name\<close> followed by
  \<open>_checkpoint.pth.tar\<close>; the best copy, made exactly when \<open>is_best\<close> holds, is
  \<open>best.pth.tar\<close>, or \<open>name\<close> followed by \<open>_best.pth.tar\<close>. These are the only
  paths the call adds.
\<close>

theorem save_checkpoint_file_names:
  "\<exists>w'. save_checkpoint ext epoch arch model optimizer scheduler best_top1 is_best name w = Inr w'
      \<and> files w' (case name of None \<Rightarrow> ''checkpoint.pth.tar''
                    | Some n \<Rightarrow> n @ ''_checkpoint.pth.tar'') =
          Some (torch_serialize ext
            (PyDict (checkpoint ext epoch arch model optimizer scheduler best_top1)))
      \<and> (is_best \<longrightarrow>
           files w' (case name of None \<Rightarrow> ''best.pth.tar'' | Some n \<Rightarrow> n @ ''_best.pth.tar'') =
             Some (torch_serialize ext
               (PyDict (checkpoint ext epoch arch model optimizer scheduler best_top1))))
      \<and> dom (files w') =
          dom (files w)
          \<union> {case name of None \<Rightarrow> ''checkpoint.pth.tar'' | Some n \<Rightarrow> n @ ''_checkpoint.pth.tar''}
          \<union> (if is_best
             then {case name of None \<Rightarrow> ''best.pth.tar'' | Some n \<Rightarrow> n @ ''_best.pth.tar''}
             else {})"
  using filename_neq [of name]
  by (auto simp add: save_checkpoint_eq filename_def filename_best_def)

theorem save_checkpoint_file_names_witness:
  "\<exists>w'. save_checkpoint toy 5 ''resnet18'' toy_model toy_optimizer None
           (Some 0x4051CCCCCCCCCCCD) True (Some ''run1'') empty_world = Inr w'
      \<and> files w' ''run1_checkpoint.pth.tar'' \<noteq> None
      \<and> files w' ''run1_best.pth.tar'' \<noteq> None
      \<and> dom (files w') = {''run1_checkpoint.pth.tar'', ''run1_best.pth.tar''}"
  using save_checkpoint_file_names
          [of toy 5 "''resnet18''" toy_model toy_optimizer None "Some 0x4051CCCCCCCCCCCD"
              True "Some ''run1''" empty_world]
  by (auto simp add: empty_world_def)

text \<open>
  C10. The record that \<open>save_checkpoint\<close> writes always has the keys \<open>epoch\<close>, \<open>arch\<close>,
  \<open>state_dict\<close> and \<open>optimizer\<close>; it has \<open>best_top1\<close> exactly when that argument is not
  \<open>None\<close>; every key is one of the seven fields of the data model, and no key occurs
  twice.
\<close>

theorem save_checkpoint_record_keys:
  "(\<exists>w'. save_checkpoint ext epoch arch model optimizer scheduler best_top1 is_best name w = Inr w'
       \<and> files w' (filename name) =
           Some (torch_serialize ext
             (PyDict (checkpoint ext epoch arch model optimizer scheduler best_top1))))
   \<and> {''epoch'', ''arch'', ''state_dict'', ''optimizer''}
        \<subseteq> fst ` set (checkpoint ext epoch arch model optimizer scheduler best_top1)
   \<and> (''best_top1'' \<in> fst ` set (checkpoint ext epoch arch model optimizer scheduler best_top1)
        \<longleftrightarrow> best_top1 \<noteq> None)
   \<and> fst ` set (checkpoint ext epoch arch model optimizer scheduler best_top1)
        \<subseteq> {''epoch'', ''arch'', ''state_dict'', ''best_top1'', ''optimizer'',
            ''compression_sched'', ''thinning_recipe''}
   \<and> distinct (map fst (checkpoint ext epoch arch model optimizer scheduler best_top1))"
proof -
  have "distinct (map fst (checkpoint ext epoch arch model optimizer scheduler best_top1))"
    by (cases best_top1; cases scheduler; cases "model_thinning_recipe ext model")
       (simp_all add: checkpoint_eq)
  moreover have "\<exists>w'. save_checkpoint ext epoch arch model optimizer scheduler best_top1 is_best name w = Inr w'
       \<and> files w' (filename name) =
           Some (torch_serialize ext
             (PyDict (checkpoint ext epoch arch model optimizer scheduler best_top1)))"
    using filename_neq [of name] by (simp add: save_checkpoint_eq)
  ultimately show ?thesis
    by (simp add: checkpoint_keys)
qed

theorem save_checkpoint_record_keys_witness:
  "fst ` set (checkpoint toy 5 ''resnet18'' toy_model toy_optimizer None
                (Some 0x4051CCCCCCCCCCCD)) =
     {''epoch'', ''arch'', ''state_dict'', ''best_top1'', ''optimizer'', ''thinning_recipe''}
   \<and> ''best_top1'' \<notin> fst ` set (checkpoint toy 5 ''resnet18'' toy_model toy_optimizer None None)"
  using save_checkpoint_record_keys
          [of toy 5 "''resnet18''" toy_model toy_optimizer None None True "Some ''run1''"
              empty_world]
  by (simp add: toy_checkpoint_run1 insert_commute)

text \<open>
  C1. Suppose the serializer reads back what it wrote, and a model whose
  \<open>load_state_dict\<close> returns normally then exports the state it was given. Then
  \<open>save_checkpoint\<close> returns normally, and \<open>load_checkpoint\<close> on the primary file,
  into any model, either returns a model whose exported state is the state exported at
  save time, or ends with an exception raised by a collaborator (never with a missing
  file, a missing key or a type error).
\<close>

theorem save_load_state_dict:
  assumes rt: "\<forall>obj. torch_deserialize ext (torch_serialize ext obj) = Inr obj"
      and ld: "\<forall>m sd m'. model_load_state_dict ext m sd = (None, m') \<longrightarrow>
                 model_state_dict ext m' = sd"
  shows "\<exists>w'. save_checkpoint ext epoch arch model optimizer scheduler best_top1 is_best name w
                = Inr w'
          \<and> (case load_checkpoint ext model2 (filename name) optimizer2 w' of
                (Inr (m', s, e), m'', opt', w'') \<Rightarrow>
                   m'' = m' \<and> model_state_dict ext m'' = model_state_dict ext model
              | (Inl err, m'', opt', w'') \<Rightarrow> (\<exists>x. err = Raised x))"
proof -
  obtain w' where sv:
    "save_checkpoint ext epoch arch model optimizer scheduler best_top1 is_best name w = Inr w'"
    by (simp add: save_checkpoint_eq)
  have main: "case load_checkpoint ext model2 (filename name) optimizer2 w' of
          (Inr (m', s, e), m'', opt', w'') \<Rightarrow>
             m'' = m' \<and> model_state_dict ext m'' = model_state_dict ext model
        | (Inl err, m'', opt', w'') \<Rightarrow> (\<exists>x. err = Raised x)"
    unfolding load_after_save [OF rt sv]
    by (rule after_load_compression_sched_state_dict [OF ld])
  show ?thesis
    by (rule exI [of _ w'], rule conjI, rule sv, rule main)
qed

theorem save_load_state_dict_witness:
  "(\<exists>w'. save_checkpoint toy 5 ''resnet18'' toy_model toy_optimizer (Some toy_scheduler)
            (Some 0x4051CCCCCCCCCCCD) True (Some ''run1'') empty_world = Inr w'
        \<and> (case load_checkpoint toy toy_fresh_model (filename (Some ''run1'')) None w' of
              (Inr (m', s, e), m'', opt', w'') \<Rightarrow>
                 m'' = m' \<and> model_state_dict toy m'' = model_state_dict toy toy_model
            | (Inl err, m'', opt', w'') \<Rightarrow> (\<exists>x. err = Raised x)))
   \<and> (case save_checkpoint toy 5 ''resnet18'' toy_model toy_optimizer (Some toy_scheduler)
            (Some 0x4051CCCCCCCCCCCD) True (Some ''run1'') empty_world of
         Inr w' \<Rightarrow>
           fst (load_checkpoint toy toy_fresh_model ''run1_checkpoint.pth.tar'' None w') =
             Inr ((PyDict [(''fc.weight'', PyTensor [1, 2, 3])], None), Some toy_scheduler, 6)
       | Inl err \<Rightarrow> False)"
proof (rule conjI)
  show "\<exists>w'. save_checkpoint toy 5 ''resnet18'' toy_model toy_optimizer (Some toy_scheduler)
            (Some 0x4051CCCCCCCCCCCD) True (Some ''run1'') empty_world = Inr w'
        \<and> (case load_checkpoint toy toy_fresh_model (filename (Some ''run1'')) None w' of
              (Inr (m', s, e), m'', opt', w'') \<Rightarrow>
                 m'' = m' \<and> model_state_dict toy m'' = model_state_dict toy toy_model
            | (Inl err, m'', opt', w'') \<Rightarrow> (\<exists>x. err = Raised x))"
    by (rule save_load_state_dict [OF toy_round_trip toy_load_state_dict])
  have l: "load_compression_sched toy toy_fresh_model p
             (checkpoint toy 5 ''resnet18'' toy_model toy_optimizer (Some toy_scheduler)
                (Some 0x4051CCCCCCCCCCCD)) ep w0 =
           (None, (PyList [fst toy_fresh_model, PyList [PyStr ''remove channel 0'']], None),
            Some toy_scheduler,
            w0\<lparr>log := log w0 @
               [(''Loaded compression schedule from checkpoint (epoch %d)'', [ep]),
                (''Loaded a thinning recipe from the checkpoint'', [])]\<rparr>)" for p ep w0
    by (simp add: load_compression_sched_def checkpoint_compression_sched
          checkpoint_thinning_recipe msglogger_info_def Let_def
          toy_def toy_model_def toy_fresh_model_def)
  obtain w' where sv:
    "save_checkpoint toy 5 ''resnet18'' toy_model toy_optimizer (Some toy_scheduler)
       (Some 0x4051CCCCCCCCCCCD) True (Some ''run1'') empty_world = Inr w'"
    by (simp add: save_checkpoint_eq)
  have "fst (load_checkpoint toy toy_fresh_model (filename (Some ''run1'')) None w') =
          Inr ((PyDict [(''fc.weight'', PyTensor [1, 2, 3])], None), Some toy_scheduler, 6)"
    unfolding load_after_save [OF toy_round_trip sv] l
    by (simp add: after_load_compression_sched_def toy_def toy_model_def)
  then show "case save_checkpoint toy 5 ''resnet18'' toy_model toy_optimizer (Some toy_scheduler)
            (Some 0x4051CCCCCCCCCCCD) True (Some ''run1'') empty_world of
         Inr w' \<Rightarrow>
           fst (load_checkpoint toy toy_fresh_model ''run1_checkpoint.pth.tar'' None w') =
             Inr ((PyDict [(''fc.weight'', PyTensor [1, 2, 3])], None), Some toy_scheduler, 6)
       | Inl err \<Rightarrow> False"
    unfolding sv by (simp add: filename_def)
qed

text \<open>
  C2. Under the same assumption on the serializer, \<open>load_checkpoint\<close> on the file
  saved with epoch \<open>e\<close> returns \<open>e + 1\<close> as its third result, for every integer \<open>e\<close>,
  whenever it returns; otherwise it ends with an exception raised by a collaborator.
\<close>

theorem load_start_epoch:
  assumes rt: "\<forall>obj. torch_deserialize ext (torch_serialize ext obj) = Inr obj"
  shows "\<exists>w'. save_checkpoint ext epoch arch model optimizer scheduler best_top1 is_best name w
                = Inr w'
          \<and> (case load_checkpoint ext model2 (filename name) optimizer2 w' of
                (Inr (m', s, start_epoch), rest) \<Rightarrow> start_epoch = epoch + 1
              | (Inl err, rest) \<Rightarrow> (\<exists>x. err = Raised x))"
proof -
  obtain w' where sv:
    "save_checkpoint ext epoch arch model optimizer scheduler best_top1 is_best name w = Inr w'"
    by (simp add: save_checkpoint_eq)
  have main: "case load_checkpoint ext model2 (filename name) optimizer2 w' of
          (Inr (m', s, start_epoch), rest) \<Rightarrow> start_epoch = epoch + 1
        | (Inl err, rest) \<Rightarrow> (\<exists>x. err = Raised x)"
    unfolding load_after_save [OF rt sv]
    by (rule after_load_compression_sched_start_epoch)
  show ?thesis
    by (rule exI [of _ w'], rule conjI, rule sv, rule main)
qed

theorem load_start_epoch_witness:
  "(\<exists>w'. save_checkpoint toy 41 ''vgg16'' toy_model toy_optimizer None None False None
            empty_world = Inr w'
        \<and> (case load_checkpoint toy toy_fresh_model (filename None) None w' of
              (Inr (m', s, start_epoch), rest) \<Rightarrow> start_epoch = 41 + 1
            | (Inl err, rest) \<Rightarrow> (\<exists>x. err = Raised x)))
   \<and> (case save_checkpoint toy 41 ''vgg16'' toy_model toy_optimizer None None False None
            empty_world of
         Inr w' \<Rightarrow>
           fst (load_checkpoint toy toy_fresh_model ''checkpoint.pth.tar'' None w') =
             Inr ((PyDict [(''fc.weight'', PyTensor [1, 2, 3])], None), None, 42)
       | Inl err \<Rightarrow> False)"
proof (rule conjI)
  show "\<exists>w'. save_checkpoint toy 41 ''vgg16'' toy_model toy_optimizer None None False None
            empty_world = Inr w'
        \<and> (case load_checkpoint toy toy_fresh_model (filename None) None w' of
              (Inr (m', s, start_epoch), rest) \<Rightarrow> start_epoch = 41 + 1
            | (Inl err, rest) \<Rightarrow> (\<exists>x. err = Raised x))"
    by (rule load_start_epoch [OF toy_round_trip])
  have a: "map_of (checkpoint toy 41 ''vgg16'' toy_model toy_optimizer None None)
             ''compression_sched'' = None"
    by (simp add: checkpoint_compression_sched)
  obtain w' where sv:
    "save_checkpoint toy 41 ''vgg16'' toy_model toy_optimizer None None False None
       empty_world = Inr w'"
    by (simp add: save_checkpoint_eq)
  have "fst (load_checkpoint toy toy_fresh_model (filename None) None w') =
          Inr ((PyDict [(''fc.weight'', PyTensor [1, 2, 3])], None), None, 42)"
    unfolding load_after_save [OF toy_round_trip sv] load_compression_sched_absent [OF a]
    by (simp add: after_load_compression_sched_def toy_def toy_model_def toy_fresh_model_def)
  then show "case save_checkpoint toy 41 ''vgg16'' toy_model toy_optimizer None None False None
            empty_world of
         Inr w' \<Rightarrow>
           fst (load_checkpoint toy toy_fresh_model ''checkpoint.pth.tar'' None w') =
             Inr ((PyDict [(''fc.weight'', PyTensor [1, 2, 3])], None), None, 42)
       | Inl err \<Rightarrow> False"
    unfolding sv by (simp add: filename_def)
qed

text \<open>
  C4. Saved with \<open>scheduler = None\<close>, the record has no key \<open>compression_sched\<close>.
  Loading that file gives \<open>None\<close> as the scheduler, and the log receives the warning
  that the schedule does not exist, followed by the \<open>loaded checkpoint\<close> record; the
  only collaborator called is \<open>load_state_dict\<close> of the model.
\<close>

theorem save_without_scheduler_load:
  assumes rt: "\<forall>obj. torch_deserialize ext (torch_serialize ext obj) = Inr obj"
  shows "''compression_sched'' \<notin>
           fst ` set (checkpoint ext epoch arch model optimizer None best_top1)
       \<and> (\<exists>w'. save_checkpoint ext epoch arch model optimizer None best_top1 is_best name w
                  = Inr w'
            \<and> load_checkpoint ext model2 (filename name) optimizer2 w' =
                (case model_load_state_dict ext model2 (model_state_dict ext model) of
                   (None, m') \<Rightarrow> Inr (m', None, epoch + 1)
                 | (Some x, m') \<Rightarrow> Inl (Raised x),
                 snd (model_load_state_dict ext model2 (model_state_dict ext model)),
                 optimizer2,
                 w'\<lparr>log := log w'
                    @ [(''=> loading checkpoint %s'', [PyStr (filename name)])]
                    @ (case best_top1 of None \<Rightarrow> []
                       | Some b \<Rightarrow> [(''   best top@1: %.3f'', [PyFloat b])])
                    @ [(''Warning: compression schedule data does not exist in the checkpoint'',
                        []),
                       (''=> loaded checkpoint '' @ [CHR 0x27] @ ''%s'' @ [CHR 0x27]
                          @ '' (epoch %d)'',
                        [PyStr (filename name), PyInt epoch])]\<rparr>))"
proof -
  obtain w' where sv:
    "save_checkpoint ext epoch arch model optimizer None best_top1 is_best name w = Inr w'"
    by (simp add: save_checkpoint_eq)
  have k: "''compression_sched'' \<notin>
             fst ` set (checkpoint ext epoch arch model optimizer None best_top1)"
    by (simp add: checkpoint_keys)
  have a: "map_of (checkpoint ext epoch arch model optimizer None best_top1)
             ''compression_sched'' = None"
    by (simp add: checkpoint_compression_sched)
  have main: "load_checkpoint ext model2 (filename name) optimizer2 w' =
                (case model_load_state_dict ext model2 (model_state_dict ext model) of
                   (None, m') \<Rightarrow> Inr (m', None, epoch + 1)
                 | (Some x, m') \<Rightarrow> Inl (Raised x),
                 snd (model_load_state_dict ext model2 (model_state_dict ext model)),
                 optimizer2,
                 w'\<lparr>log := log w'
                    @ [(''=> loading checkpoint %s'', [PyStr (filename name)])]
                    @ (case best_top1 of None \<Rightarrow> []
                       | Some b \<Rightarrow> [(''   best top@1: %.3f'', [PyFloat b])])
                    @ [(''Warning: compression schedule data does not exist in the checkpoint'',
                        []),
                       (''=> loaded checkpoint '' @ [CHR 0x27] @ ''%s'' @ [CHR 0x27]
                          @ '' (epoch %d)'',
                        [PyStr (filename name), PyInt epoch])]\<rparr>)"
    unfolding load_after_save [OF rt sv] load_compression_sched_absent [OF a]
    by (simp add: after_load_compression_sched_def msglogger_info_def
          split: prod.splits option.splits)
  show ?thesis
    by (rule conjI, rule k, rule exI [of _ w'], rule conjI, rule sv, rule main)
qed

theorem save_without_scheduler_load_witness:
  "''compression_sched'' \<notin>
     fst ` set (checkpoint toy 5 ''resnet18'' toy_model toy_optimizer None
                  (Some 0x4051CCCCCCCCCCCD))
   \<and> (\<exists>w'. save_checkpoint toy 5 ''resnet18'' toy_model toy_optimizer None
              (Some 0x4051CCCCCCCCCCCD) True (Some ''run1'') empty_world = Inr w'
        \<and> load_checkpoint toy toy_fresh_model ''run1_checkpoint.pth.tar''
            (Some toy_optimizer) w' =
            (Inr ((PyDict [(''fc.weight'', PyTensor [1, 2, 3])], None), None, 6),
             (PyDict [(''fc.weight'', PyTensor [1, 2, 3])], None),
             Some toy_optimizer,
             w'\<lparr>log := log w' @
                [(''=> loading checkpoint %s'', [PyStr ''run1_checkpoint.pth.tar'']),
                 (''   best top@1: %.3f'', [PyFloat 0x4051CCCCCCCCCCCD]),
                 (''Warning: compression schedule data does not exist in the checkpoint'', []),
                 (''=> loaded checkpoint '' @ [CHR 0x27] @ ''%s'' @ [CHR 0x27]
                    @ '' (epoch %d)'',
                  [PyStr ''run1_checkpoint.pth.tar'', PyInt 5])]\<rparr>))"
  using save_without_scheduler_load
          [OF toy_round_trip,
           where epoch = 5 and arch = "''resnet18''" and model = toy_model
             and optimizer = toy_optimizer and ?best_top1.0 = "Some 0x4051CCCCCCCCCCCD"
             and is_best = True and name = "Some ''run1''" and w = empty_world
             and ?model2.0 = toy_fresh_model and ?optimizer2.0 = "Some toy_optimizer"]
  by (simp add: filename_def toy_def toy_model_def toy_fresh_model_def)

text \<open>
  C7. \<open>load_checkpoint\<close> never changes the optimizer it is given: the optimizer comes
  back as it was passed, and everything else the call does is the same as for a call
  without an optimizer. This holds for every file, so also for one whose record holds
  an optimizer state written by \<open>save_checkpoint\<close>.
\<close>

theorem load_checkpoint_optimizer_untouched:
  "load_checkpoint ext model chkpt_file optimizer w =
     (case load_checkpoint ext model chkpt_file None w of
        (res, model', opt', w') \<Rightarrow> (res, model', optimizer, w'))"
  by (simp add: load_checkpoint_def Let_def
        split: sum.splits pyobj.splits option.splits prod.splits)

text \<open>
  C6. When the record read from the file has no key \<open>compression_sched\<close>,
  \<open>load_checkpoint\<close> calls neither the scheduler's constructor, nor its
  \<open>load_state_dict\<close>, nor the thinning executor: replacing all three by arbitrary other
  functions leaves the whole result unchanged, whether or not the record holds a
  \<open>thinning_recipe\<close>; and a call that returns gives \<open>None\<close> as the scheduler.
\<close>

theorem load_checkpoint_no_schedule:
  assumes f: "files w chkpt_file = Some data"
      and d: "torch_deserialize ext data = Inr (PyDict chk)"
      and a: "map_of chk ''compression_sched'' = None"
  shows "load_checkpoint
           (ext\<lparr>CompressionScheduler := c, scheduler_load_state_dict := l,
                execute_thinning_recipe := x\<rparr>) model chkpt_file optimizer w
         = load_checkpoint ext model chkpt_file optimizer w
       \<and> (\<forall>m s e rest. load_checkpoint ext model chkpt_file optimizer w = (Inr (m, s, e), rest)
             \<longrightarrow> s = None)"
proof
  show "load_checkpoint
           (ext\<lparr>CompressionScheduler := c, scheduler_load_state_dict := l,
                execute_thinning_recipe := x\<rparr>) model chkpt_file optimizer w
         = load_checkpoint ext model chkpt_file optimizer w"
    using f d
    by (simp add: load_checkpoint_def isfile_def torch_load_def Let_def msglogger_info_def
          load_compression_sched_absent [OF a]
          split: option.splits sum.splits prod.splits)
  show "\<forall>m s e rest. load_checkpoint ext model chkpt_file optimizer w = (Inr (m, s, e), rest)
             \<longrightarrow> s = None"
    using f d
    by (simp add: load_checkpoint_def isfile_def torch_load_def Let_def msglogger_info_def
          load_compression_sched_absent [OF a]
          split: option.splits sum.splits prod.splits)
qed

theorem load_checkpoint_no_schedule_witness:
  "load_checkpoint
     (toy\<lparr>CompressionScheduler := (\<lambda>m. Inl ''unused''),
          scheduler_load_state_dict := (\<lambda>s st. (Some ''unused'', s)),
          execute_thinning_recipe := (\<lambda>m s r. (Some ''unused'', m, s))\<rparr>)
     toy_fresh_model ''old.pth.tar'' None toy_old_world
   = load_checkpoint toy toy_fresh_model ''old.pth.tar'' None toy_old_world
   \<and> fst (load_checkpoint toy toy_fresh_model ''old.pth.tar'' None toy_old_world) =
       Inr ((PyDict [(''fc.weight'', PyTensor [7, 8, 9])], None), None, 4)"
proof (rule conjI)
  have f: "files toy_old_world ''old.pth.tar'' =
             Some (PyDict [(''epoch'', PyInt 3),
                        (''state_dict'', PyDict [(''fc.weight'', PyTensor [7, 8, 9])]),
                        (''thinning_recipe'', PyList [PyStr ''remove channel 0''])])"
    by (simp add: toy_old_world_def)
  have d: "torch_deserialize toy
             (PyDict [(''epoch'', PyInt 3),
                        (''state_dict'', PyDict [(''fc.weight'', PyTensor [7, 8, 9])]),
                        (''thinning_recipe'', PyList [PyStr ''remove channel 0''])]) =
           Inr (PyDict [(''epoch'', PyInt 3),
                        (''state_dict'', PyDict [(''fc.weight'', PyTensor [7, 8, 9])]),
                        (''thinning_recipe'', PyList [PyStr ''remove channel 0''])])"
    by (simp add: toy_def)
  have a: "map_of [(''epoch'', PyInt 3),
                        (''state_dict'', PyDict [(''fc.weight'', PyTensor [7, 8, 9])]),
                        (''thinning_recipe'', PyList [PyStr ''remove channel 0''])]
             ''compression_sched'' = None"
    by simp
  show "load_checkpoint
     (toy\<lparr>CompressionScheduler := (\<lambda>m. Inl ''unused''),
          scheduler_load_state_dict := (\<lambda>s st. (Some ''unused'', s)),
          execute_thinning_recipe := (\<lambda>m s r. (Some ''unused'', m, s))\<rparr>)
     toy_fresh_model ''old.pth.tar'' None toy_old_world
   = load_checkpoint toy toy_fresh_model ''old.pth.tar'' None toy_old_world"
    by (rule load_checkpoint_no_schedule [OF f d a, THEN conjunct1])
  have e: "map_of [(''epoch'', PyInt 3),
                        (''state_dict'', PyDict [(''fc.weight'', PyTensor [7, 8, 9])]),
                        (''thinning_recipe'', PyList [PyStr ''remove channel 0''])]
             ''epoch'' = Some (PyInt 3)"
    by simp
  have s: "map_of [(''epoch'', PyInt 3),
                        (''state_dict'', PyDict [(''fc.weight'', PyTensor [7, 8, 9])]),
                        (''thinning_recipe'', PyList [PyStr ''remove channel 0''])]
             ''state_dict'' = Some (PyDict [(''fc.weight'', PyTensor [7, 8, 9])])"
    by simp
  show "fst (load_checkpoint toy toy_fresh_model ''old.pth.tar'' None toy_old_world) =
       Inr ((PyDict [(''fc.weight'', PyTensor [7, 8, 9])], None), None, 4)"
    unfolding load_checkpoint_record [OF f d e s] load_compression_sched_absent [OF a]
    by (simp add: after_load_compression_sched_def toy_def toy_fresh_model_def)
qed

end
